theory Spec2Isabelle
  imports Complex_Main
begin

section \<open>Shared data model\<close>

text \<open>
  A point is one row of the numpy cloud array; a cloud is the array, row by row.
  Floating-point values are only stored, copied and compared by the phases modelled
  here, so they are taken as reals.
\<close>

type_synonym point = "real list"
type_synonym cloud = "point list"

text \<open>The exceptions the phases can raise on the paths modelled here.\<close>

datatype error = KeyError | ValueError | TypeError | IndexError

text \<open>\<^verbatim>\<open>PointCloud\<close>: the event number and the cloud array.\<close>

record point_cloud =
  event_number :: int
  pc_cloud :: cloud

text \<open>\<^verbatim>\<open>Cluster\<close>: event, label and the owned \<^verbatim>\<open>point_cloud.cloud\<close>.\<close>

record cluster =
  c_event :: int
  c_label :: int
  c_cloud :: cloud

section \<open>The cluster file\<close>

text \<open>
  The HDF5 cluster file: group \<^verbatim>\<open>cluster\<close> with attributes \<^verbatim>\<open>min_event\<close>,
  \<^verbatim>\<open>max_event\<close> and one subgroup \<^verbatim>\<open>event_{idx}\<close> per written event; an event group has
  the attribute \<^verbatim>\<open>nclusters\<close> and one subgroup \<^verbatim>\<open>cluster_{cidx}\<close> per cluster, holding
  the attribute \<^verbatim>\<open>label\<close> and the dataset \<^verbatim>\<open>cloud\<close>. The formatted names
  \<^verbatim>\<open>event_{idx}\<close> and \<^verbatim>\<open>cluster_{cidx}\<close> are injective in the integer, so the groups are
  keyed by the integer itself.
\<close>

record stored_cluster =
  sc_label :: int
  sc_cloud :: cloud

record event_group =
  nclusters :: int
  eg_clusters :: "int \<rightharpoonup> stored_cluster"

record cluster_group =
  cg_min_event :: int
  cg_max_event :: int
  cg_events :: "int \<rightharpoonup> event_group"

section \<open>The point file\<close>

text \<open>
  Group \<^verbatim>\<open>cloud\<close> of the point file, written by the point-cloud phase and read by the
  clustering phase: the attributes \<^verbatim>\<open>min_event\<close> and \<^verbatim>\<open>max_event\<close> and the datasets
  \<^verbatim>\<open>cloud_{idx}\<close>, keyed by the integer. A dataset has its array and its attributes, a
  dictionary from attribute name to value.
\<close>

record pc_dataset =
  ds_data :: cloud
  ds_attrs :: "string \<rightharpoonup> real"

record point_group =
  pg_min_event :: int
  pg_max_event :: int
  pg_clouds :: "int \<rightharpoonup> pc_dataset"

section \<open>The clustering phase: \<^verbatim>\<open>phase_2\<close>\<close>

record cluster_parameters =
  min_write_size :: int

text \<open>
  The functions \<^verbatim>\<open>phase_2\<close> imports from \<^verbatim>\<open>core.point_cloud\<close> and \<^verbatim>\<open>core.clusterize\<close>
  are taken as parameters.
\<close>

record cluster_engine =
  load_cloud_from_hdf5_data :: "cloud \<Rightarrow> int \<Rightarrow> point_cloud"
  clusterize :: "point_cloud \<Rightarrow> cluster_parameters \<Rightarrow> cluster list"
  join_clusters :: "cluster list \<Rightarrow> cluster_parameters \<Rightarrow> cluster list"
  cleanup_clusters :: "cluster list \<Rightarrow> cluster_parameters \<Rightarrow> cluster list"

text \<open>
  The state of the loop: the cluster group being written, and two logs that record on
  which events the cloud was loaded and on which \<^verbatim>\<open>clusterize\<close> was invoked. The
  progress counters \<^verbatim>\<open>count\<close> and \<^verbatim>\<open>flush_count\<close> only drive \<^verbatim>\<open>print\<close> and are left out.
\<close>

record p2_state =
  p2_group :: cluster_group
  p2_loaded :: "int list"
  p2_clusterized :: "int list"

text \<open>
  \<^verbatim>\<open>for cidx, cluster in enumerate(cleaned)\<close>: \<^verbatim>\<open>create_group\<close> raises \<^verbatim>\<open>ValueError\<close> when
  the name exists already.
\<close>

fun write_clusters :: "int \<Rightarrow> cluster list \<Rightarrow> event_group \<Rightarrow> error + event_group" where
  "write_clusters cidx [] g = Inr g"
| "write_clusters cidx (c # cs) g =
     (case eg_clusters g cidx of
        Some _ \<Rightarrow> Inl ValueError
      | None \<Rightarrow>
          write_clusters (cidx + 1) cs
            (g\<lparr>eg_clusters := (eg_clusters g)(cidx \<mapsto> \<lparr>sc_label = c_label c, sc_cloud = c_cloud c\<rparr>)\<rparr>))"

text \<open>Lines 56 to 61: the event group, its count attribute, then the clusters.\<close>

definition write_event :: "int \<Rightarrow> cluster list \<Rightarrow> cluster_group \<Rightarrow> error + cluster_group" where
  "write_event idx cleaned cg =
     (case cg_events cg idx of
        Some _ \<Rightarrow> Inl ValueError
      | None \<Rightarrow>
          (case write_clusters 0 cleaned \<lparr>nclusters = int (length cleaned), eg_clusters = Map.empty\<rparr> of
             Inl e \<Rightarrow> Inl e
           | Inr g \<Rightarrow> Inr (cg\<lparr>cg_events := (cg_events cg)(idx \<mapsto> g)\<rparr>)))"

text \<open>The three calls of lines 51 to 53.\<close>

definition cleaned_of :: "cluster_engine \<Rightarrow> cluster_parameters \<Rightarrow> point_cloud \<Rightarrow> cluster list" where
  "cleaned_of eng cluster_params cloud =
     cleanup_clusters eng
       (join_clusters eng (clusterize eng cloud cluster_params) cluster_params) cluster_params"

text \<open>One iteration of the loop body, lines 37 to 61.\<close>

definition phase_2_event ::
  "cluster_engine \<Rightarrow> cluster_parameters \<Rightarrow> point_group \<Rightarrow> int \<Rightarrow> p2_state \<Rightarrow> error + p2_state" where
  "phase_2_event eng cluster_params cloud_group idx st =
     (case pg_clouds cloud_group idx of
        None \<Rightarrow> Inr st
      | Some cloud_data \<Rightarrow>
          (let cloud = load_cloud_from_hdf5_data eng (ds_data cloud_data) idx;
               st1 = st\<lparr>p2_loaded := p2_loaded st @ [idx]\<rparr>
           in if int (length (pc_cloud cloud)) < min_write_size cluster_params then Inr st1
              else
                (case write_event idx (cleaned_of eng cluster_params cloud) (p2_group st1) of
                   Inl e \<Rightarrow> Inl e
                 | Inr cg \<Rightarrow>
                     Inr (st1\<lparr>p2_group := cg, p2_clusterized := p2_clusterized st1 @ [idx]\<rparr>))))"

text \<open>\<^verbatim>\<open>for idx in range(min_event, max_event+1)\<close>; an exception ends the loop.\<close>

fun phase_2_loop ::
  "cluster_engine \<Rightarrow> cluster_parameters \<Rightarrow> point_group \<Rightarrow> int list \<Rightarrow> p2_state \<Rightarrow> error + p2_state" where
  "phase_2_loop eng cluster_params cloud_group [] st = Inr st"
| "phase_2_loop eng cluster_params cloud_group (idx # rest) st =
     (case phase_2_event eng cluster_params cloud_group idx st of
        Inl e \<Rightarrow> Inl e
      | Inr st' \<Rightarrow> phase_2_loop eng cluster_params cloud_group rest st')"

text \<open>
  \<^verbatim>\<open>phase_2\<close>: the cluster file is opened with mode \<^verbatim>\<open>w\<close>, so the cluster group starts
  with the two range attributes and no event.
\<close>

definition phase_2 :: "cluster_engine \<Rightarrow> cluster_parameters \<Rightarrow> point_group \<Rightarrow> error + p2_state" where
  "phase_2 eng cluster_params cloud_group =
     phase_2_loop eng cluster_params cloud_group
       [pg_min_event cloud_group .. pg_max_event cloud_group]
       \<lparr>p2_group = \<lparr>cg_min_event = pg_min_event cloud_group,
                     cg_max_event = pg_max_event cloud_group,
                     cg_events = Map.empty\<rparr>,
        p2_loaded = [], p2_clusterized = []\<rparr>"

section \<open>Messages: the progress queue and the log\<close>

text \<open>\<^verbatim>\<open>StatusMessage(run, phase, progress)\<close>, as put on the queue.\<close>

datatype phase = WAIT | CLOUD | SOLVE

record status_message =
  sm_run :: int
  sm_phase :: phase
  sm_progress :: int

text \<open>
  The calls of \<^verbatim>\<open>spyral_warn\<close>, \<^verbatim>\<open>spyral_error\<close> and \<^verbatim>\<open>spyral_info\<close>: the level and
  which of the source's messages it is (a run number where the message formats one).
\<close>

datatype log_level = Warn | Error | Info

datatype log_message =
    ParticleIDDoesNotExist
  | TargetNotCorrectFormat
  | ClustersOrEstimatesDoNotExist int
  | ClusterGroupDoesNotExist int
  | NoEventsWithinPID int
  | Phase4Complete
  | RunDoesNotExist int
  | GetGroupDoesNotExist int
  | FribGroupDoesNotExist int
  | FribEventGroupDoesNotExist int
  | Phase1Complete

section \<open>HDF5 lookups\<close>

text \<open>
  What \<^verbatim>\<open>file[name]\<close> finds under a name that should hold a group: nothing (the lookup
  raises \<^verbatim>\<open>KeyError\<close>, \<^verbatim>\<open>get\<close> gives \<^verbatim>\<open>None\<close>), an object that is not a group, or the
  group.
\<close>

datatype 'a h5_entry = Missing | NotGroup | Group 'a

section \<open>The solve phase: \<^verbatim>\<open>phase_solve\<close> and \<^verbatim>\<open>phase_4_interp\<close>\<close>

text \<open>One row of the estimate dataframe, with the columns the phase reads.\<close>

record estimate_row =
  e_event :: int
  e_cluster_index :: int
  e_dEdx :: real
  e_brho :: real
  e_polar :: real
  e_azimuthal :: real
  e_vertex_x :: real
  e_vertex_y :: real
  e_vertex_z :: real
  e_ic_amplitude :: real

text \<open>
  \<^verbatim>\<open>ParticleID\<close>: the nucleus and the cut, of which the phase uses \<^verbatim>\<open>is_cols_inside\<close>
  on the columns \<^verbatim>\<open>dEdx\<close> and \<^verbatim>\<open>brho\<close>, row by row.
\<close>

record particle_id =
  nucleus :: string
  is_cols_inside :: "real \<Rightarrow> real \<Rightarrow> bool"

text \<open>What \<^verbatim>\<open>load_target\<close> returns.\<close>

datatype target = GasTarget | SolidTarget | NoTarget

record solver_parameters =
  ic_min_val :: real
  ic_max_val :: real

text \<open>
  \<^verbatim>\<open>Guess\<close>. \<^verbatim>\<open>phase_solve\<close> builds it with \<^verbatim>\<open>Direction.NONE\<close> as seventh field;
  the \<^verbatim>\<open>Guess\<close> of \<^verbatim>\<open>phase_4_interp\<close> has six fields, which is \<open>None\<close> here.
\<close>

datatype direction = NONE | FORWARD | BACKWARD

record guess =
  g_polar :: real
  g_azimuthal :: real
  g_brho :: real
  g_vertex_x :: real
  g_vertex_y :: real
  g_vertex_z :: real
  g_direction :: "direction option"

text \<open>One row of the result table, over its sixteen columns.\<close>

record fit_values =
  vertex_x :: real
  sigma_vx :: real
  vertex_y :: real
  sigma_vy :: real
  vertex_z :: real
  sigma_vz :: real
  brho :: real
  sigma_brho :: real
  polar :: real
  sigma_polar :: real
  azimuthal :: real
  sigma_azimuthal :: real
  redchisq :: real

record result_row =
  r_event :: int
  r_cluster_index :: int
  r_cluster_label :: int
  r_fit :: fit_values

text \<open>
  \<^verbatim>\<open>solve_physics_interp(cidx, cluster, guess, ..., results)\<close> is imported from
  \<^verbatim>\<open>solvers.solver_interp\<close>; the phases take it as a parameter that updates the result
  table. The nucleus, the interpolator and the detector parameters it also receives are
  the same at every call and are part of the parameter.
\<close>

type_synonym solver = "int \<Rightarrow> cluster \<Rightarrow> guess \<Rightarrow> result_row list \<Rightarrow> result_row list"

text \<open>A recorded invocation of the solver: the three arguments that vary.\<close>

record solver_call =
  call_cidx :: int
  call_cluster :: cluster
  call_guess :: guess

text \<open>
  What the phase finds on disk: the particle ID (\<open>None\<close> when it does not deserialize),
  the target, the cluster file (\<open>None\<close> when the path does not exist, else what is under
  the name \<^verbatim>\<open>cluster\<close>) and the rows of the estimate file (\<open>None\<close> when the path does not
  exist).
\<close>

record solve_env =
  env_pid :: "particle_id option"
  env_target :: target
  env_cluster_file :: "cluster_group h5_entry option"
  env_estimates :: "estimate_row list option"

text \<open>
  What the phase leaves behind: the messages put on the queue, the log, the solver
  invocations and the result file (\<open>None\<close> when \<^verbatim>\<open>write_parquet\<close> was not reached).
\<close>

record solve_out =
  so_queue :: "status_message list"
  so_log :: "(log_level \<times> log_message) list"
  so_calls :: "solver_call list"
  so_result :: "result_row list option"

subsection \<open>Gating\<close>

text \<open>The filter predicate of lines 96 to 99.\<close>

definition gate :: "particle_id \<Rightarrow> solver_parameters \<Rightarrow> estimate_row \<Rightarrow> bool" where
  "gate pid solver_params r \<longleftrightarrow>
     is_cols_inside pid (e_dEdx r) (e_brho r)
     \<and> e_ic_amplitude r > ic_min_val solver_params
     \<and> e_ic_amplitude r < ic_max_val solver_params"

text \<open>\<^verbatim>\<open>.sort("polar", descending=True)\<close>.\<close>

definition sort_polar_descending :: "estimate_row list \<Rightarrow> estimate_row list" where
  "sort_polar_descending rows = sort_key (\<lambda>r. - e_polar r) rows"

text \<open>
  \<^verbatim>\<open>.unique("event", keep="first")\<close>: of the rows of one event the first one is kept.
  The rows are given in the order of their first occurrence; polars leaves the order of
  the result open, and nothing below depends on it beyond the order of the solver calls.
\<close>

fun unique_event :: "int list \<Rightarrow> estimate_row list \<Rightarrow> estimate_row list" where
  "unique_event seen [] = []"
| "unique_event seen (r # rs) =
     (if e_event r \<in> set seen then unique_event seen rs
      else r # unique_event (e_event r # seen) rs)"

definition estimates_gated ::
  "particle_id \<Rightarrow> solver_parameters \<Rightarrow> estimate_row list \<Rightarrow> estimate_row list" where
  "estimates_gated pid solver_params estimate_df =
     unique_event [] (sort_polar_descending (filter (gate pid solver_params) estimate_df))"

subsection \<open>The loop over the gated rows\<close>

text \<open>The \<^verbatim>\<open>Guess\<close> built from a row.\<close>

definition guess_of_row :: "direction option \<Rightarrow> estimate_row \<Rightarrow> guess" where
  "guess_of_row dir r =
     \<lparr>g_polar = e_polar r, g_azimuthal = e_azimuthal r, g_brho = e_brho r,
      g_vertex_x = e_vertex_x r, g_vertex_y = e_vertex_y r, g_vertex_z = e_vertex_z r,
      g_direction = dir\<rparr>"

record solve_state =
  ss_count :: int
  ss_queue :: "status_message list"
  ss_calls :: "solver_call list"
  ss_results :: "result_row list"

text \<open>
  \<^verbatim>\<open>cluster_group[f"event_{event}"]\<close>. In \<^verbatim>\<open>phase_solve\<close> the cluster group is a group
  when the loop is reached. \<^verbatim>\<open>phase_4_interp\<close> takes it with \<^verbatim>\<open>get\<close> and does not check
  it: subscripting \<^verbatim>\<open>None\<close> raises \<^verbatim>\<open>TypeError\<close>, and subscripting a dataset with a
  name raises \<^verbatim>\<open>ValueError\<close>.
\<close>

definition lookup_event :: "cluster_group h5_entry \<Rightarrow> int \<Rightarrow> error + event_group" where
  "lookup_event cluster_group event =
     (case cluster_group of
        Missing \<Rightarrow> Inl TypeError
      | NotGroup \<Rightarrow> Inl ValueError
      | Group cg \<Rightarrow> (case cg_events cg event of None \<Rightarrow> Inl KeyError | Some g \<Rightarrow> Inr g))"

text \<open>
  The loop body: the progress message, the stored cluster of the row's event and cluster
  index, the guess, the solver.
\<close>

definition solve_row ::
  "solver \<Rightarrow> status_message \<Rightarrow> direction option \<Rightarrow> int \<Rightarrow> cluster_group h5_entry \<Rightarrow>
   estimate_row \<Rightarrow> solve_state \<Rightarrow> error + solve_state" where
  "solve_row solve_physics_interp msg dir flush_val cluster_group r st =
     (let st1 = (if ss_count st > flush_val
                 then st\<lparr>ss_count := 0, ss_queue := ss_queue st @ [msg]\<rparr> else st);
          st2 = st1\<lparr>ss_count := ss_count st1 + 1\<rparr>;
          event = e_event r
      in case lookup_event cluster_group event of
           Inl e \<Rightarrow> Inl e
         | Inr event_group \<Rightarrow>
             (let cidx = e_cluster_index r
              in case eg_clusters event_group cidx of
                   None \<Rightarrow> Inl KeyError
                 | Some local_cluster \<Rightarrow>
                     (let cluster = \<lparr>c_event = event, c_label = sc_label local_cluster,
                                     c_cloud = sc_cloud local_cluster\<rparr>;
                          guess = guess_of_row dir r
                      in Inr (st2\<lparr>ss_calls := ss_calls st2 @
                                     [\<lparr>call_cidx = cidx, call_cluster = cluster, call_guess = guess\<rparr>],
                                   ss_results := solve_physics_interp cidx cluster guess (ss_results st2)\<rparr>))))"

fun solve_loop ::
  "solver \<Rightarrow> status_message \<Rightarrow> direction option \<Rightarrow> int \<Rightarrow> cluster_group h5_entry \<Rightarrow>
   estimate_row list \<Rightarrow> solve_state \<Rightarrow> error + solve_state" where
  "solve_loop solve_physics_interp msg dir flush_val cluster_group [] st = Inr st"
| "solve_loop solve_physics_interp msg dir flush_val cluster_group (r # rs) st =
     (case solve_row solve_physics_interp msg dir flush_val cluster_group r st of
        Inl e \<Rightarrow> Inl e
      | Inr st' \<Rightarrow> solve_loop solve_physics_interp msg dir flush_val cluster_group rs st')"

subsection \<open>\<^verbatim>\<open>phase_solve\<close>\<close>

text \<open>An early \<^verbatim>\<open>return\<close>: what was put on the queue and logged; no call, no file.\<close>

definition skipped :: "status_message list \<Rightarrow> (log_level \<times> log_message) list \<Rightarrow> solve_out" where
  "skipped q l = \<lparr>so_queue = q, so_log = l, so_calls = [], so_result = None\<rparr>"

text \<open>
  With \<open>n\<close> gated rows, \<^verbatim>\<open>flush_val\<close> is \<^verbatim>\<open>int(0.01 * n)\<close>, that is \<open>n div 100\<close>, and the
  progress sent is \<^verbatim>\<open>int(0.01 * 100.0)\<close>, that is 1; below 100 rows \<^verbatim>\<open>flush_val\<close> is 1
  and the progress \<^verbatim>\<open>int(100.0 / float(n) * 100.0)\<close>, that is \<open>10000 div n\<close>.
\<close>

definition phase_solve ::
  "solver \<Rightarrow> int \<Rightarrow> solve_env \<Rightarrow> solver_parameters \<Rightarrow> error + solve_out" where
  "phase_solve solve_physics_interp run env solver_params =
     (case env_pid env of
        None \<Rightarrow>
          Inr (skipped [\<lparr>sm_run = run, sm_phase = WAIT, sm_progress = 0\<rparr>]
                 [(Warn, ParticleIDDoesNotExist)])
      | Some pid \<Rightarrow>
          if env_target env \<noteq> GasTarget then
            Inr (skipped [\<lparr>sm_run = run, sm_phase = WAIT, sm_progress = 0\<rparr>]
                   [(Warn, TargetNotCorrectFormat)])
          else
            (case (env_cluster_file env, env_estimates env) of
               (Some cluster_file, Some estimate_df) \<Rightarrow>
                 (case cluster_file of
                    Missing \<Rightarrow> Inl KeyError
                  | NotGroup \<Rightarrow> Inr (skipped [] [(Error, ClusterGroupDoesNotExist run)])
                  | Group cg \<Rightarrow>
                      (let gated = estimates_gated pid solver_params estimate_df;
                           n = int (length gated)
                       in if n = 0 then
                            Inr (skipped [\<lparr>sm_run = run, sm_phase = WAIT, sm_progress = 0\<rparr>]
                                   [(Warn, NoEventsWithinPID run)])
                          else
                            (let flush_val = (if n < 100 then 1 else n div 100);
                                 progress = (if n < 100 then 10000 div n else 1);
                                 msg = \<lparr>sm_run = run, sm_phase = SOLVE, sm_progress = progress\<rparr>
                             in case solve_loop solve_physics_interp msg (Some NONE) flush_val
                                       (Group cg) gated
                                       \<lparr>ss_count = 0, ss_queue = [], ss_calls = [], ss_results = []\<rparr> of
                                  Inl e \<Rightarrow> Inl e
                                | Inr st \<Rightarrow>
                                    Inr \<lparr>so_queue = ss_queue st, so_log = [(Info, Phase4Complete)],
                                         so_calls = ss_calls st,
                                         so_result = Some (ss_results st)\<rparr>)))
             | _ \<Rightarrow>
                 Inr (skipped [\<lparr>sm_run = run, sm_phase = WAIT, sm_progress = 0\<rparr>]
                        [(Warn, ClustersOrEstimatesDoNotExist run)])))"

subsection \<open>\<^verbatim>\<open>phase_4_interp\<close>\<close>

text \<open>
  The same phase without logging and without the target: every early \<^verbatim>\<open>return\<close> puts
  \<^verbatim>\<open>StatusMessage(run, Phase.WAIT, 100)\<close> on the queue, the progress sent in the loop is
  1 and \<^verbatim>\<open>flush_val\<close> is \<^verbatim>\<open>int(0.01 * n)\<close>.
\<close>

definition phase_4_interp ::
  "solver \<Rightarrow> int \<Rightarrow> solve_env \<Rightarrow> solver_parameters \<Rightarrow> error + solve_out" where
  "phase_4_interp solve_physics_interp run env solver_params =
     (case env_pid env of
        None \<Rightarrow> Inr (skipped [\<lparr>sm_run = run, sm_phase = WAIT, sm_progress = 100\<rparr>] [])
      | Some pid \<Rightarrow>
          (case (env_cluster_file env, env_estimates env) of
             (Some cluster_group, Some estimate_df) \<Rightarrow>
               (let gated = estimates_gated pid solver_params estimate_df;
                    n = int (length gated)
                in if n = 0 then
                     Inr (skipped [\<lparr>sm_run = run, sm_phase = WAIT, sm_progress = 100\<rparr>] [])
                   else
                     (case solve_loop solve_physics_interp
                             \<lparr>sm_run = run, sm_phase = SOLVE, sm_progress = 1\<rparr> None (n div 100)
                             cluster_group gated
                             \<lparr>ss_count = 0, ss_queue = [], ss_calls = [], ss_results = []\<rparr> of
                        Inl e \<Rightarrow> Inl e
                      | Inr st \<Rightarrow>
                          Inr \<lparr>so_queue = ss_queue st, so_log = [], so_calls = ss_calls st,
                               so_result = Some (ss_results st)\<rparr>))
           | _ \<Rightarrow> Inr (skipped [\<lparr>sm_run = run, sm_phase = WAIT, sm_progress = 100\<rparr>] [])))"

section \<open>The point-cloud phase: \<^verbatim>\<open>phase_pointcloud\<close>\<close>

text \<open>\<^verbatim>\<open>int(x)\<close> on a float: truncation towards zero.\<close>

definition py_int :: "real \<Rightarrow> int" where
  "py_int x = (if 0 \<le> x then \<lfloor>x\<rfloor> else \<lceil>x\<rceil>)"

text \<open>
  The trace file: the dataset \<^verbatim>\<open>meta/meta\<close>, the group \<^verbatim>\<open>get\<close> with the datasets
  \<^verbatim>\<open>evt{idx}_data\<close>, and the group \<^verbatim>\<open>frib\<close> with the group \<^verbatim>\<open>evt\<close> of the datasets
  \<^verbatim>\<open>evt{idx}_1903\<close> and with \<^verbatim>\<open>scaler\<close>. The raw GET and FRIB data of an event are of
  the types \<open>'e\<close> and \<open>'f\<close>.
\<close>

record 'f frib_group =
  fg_evt :: "(int \<rightharpoonup> 'f) h5_entry"
  fg_scaler :: "unit h5_entry"

record ('e, 'f) trace_file =
  tf_meta :: "real list"
  tf_get :: "(int \<rightharpoonup> 'e) h5_entry"
  tf_frib :: "'f frib_group h5_entry"

definition get_event_range :: "('e, 'f) trace_file \<Rightarrow> error + (int \<times> int)" where
  "get_event_range trace_file =
     (let meta_data = tf_meta trace_file
      in if length meta_data < 3 then Inl IndexError
         else Inr (py_int (meta_data ! 0), py_int (meta_data ! 2)))"

text \<open>A peak of the ion-chamber trace, with the fields the phase stores.\<close>

record peak =
  amplitude :: real
  integral :: real
  centroid :: real

record frib_parameters =
  correct_ic_time :: bool
  ic_multiplicity :: real

record detector_parameters =
  micromegas_time_bucket :: real
  window_time_bucket :: real
  detector_length :: real
  get_frequency :: real
  do_garfield_correction :: bool

text \<open>
  The imported code the phase calls, as parameters: building the cloud of a GET event
  (\<^verbatim>\<open>GetEvent\<close> and \<^verbatim>\<open>load_cloud_from_get_event\<close>, on the event data and its number),
  \<^verbatim>\<open>calibrate_z_position\<close> (the cloud, three detector parameters, the corrector and the
  IC correction, \<open>None\<close> when the call gives none), and the four methods of \<^verbatim>\<open>FribEvent\<close>
  on the FRIB data of the event. \<open>'k\<close> is the type of the electron corrector.
\<close>

record ('e, 'f, 'k) cloud_engine =
  load_cloud_from_get_event :: "'e \<Rightarrow> int \<Rightarrow> cloud"
  calibrate_z_position :: "cloud \<Rightarrow> real \<Rightarrow> real \<Rightarrow> real \<Rightarrow> 'k option \<Rightarrow> real option \<Rightarrow> cloud"
  get_good_ic_peak :: "'f \<Rightarrow> frib_parameters \<Rightarrow> (real \<times> peak) option"
  fe_correct_ic_time :: "'f \<Rightarrow> peak \<Rightarrow> frib_parameters \<Rightarrow> real \<Rightarrow> real"
  get_ic_multiplicity :: "'f \<Rightarrow> frib_parameters \<Rightarrow> real"
  get_triggering_ic_peak :: "'f \<Rightarrow> frib_parameters \<Rightarrow> peak option"

text \<open>Lines 152 to 155: the default IC settings.\<close>

definition default_ic_attrs :: "string \<rightharpoonup> real" where
  "default_ic_attrs =
     [''ic_amplitude'' \<mapsto> - 1, ''ic_integral'' \<mapsto> - 1, ''ic_centroid'' \<mapsto> - 1,
      ''ic_multiplicity'' \<mapsto> - 1]"

text \<open>Lines 190 to 193 and 228 to 231: the four attributes from a peak and a multiplicity.\<close>

definition set_ic_attrs :: "peak \<Rightarrow> real \<Rightarrow> (string \<rightharpoonup> real) \<Rightarrow> (string \<rightharpoonup> real)" where
  "set_ic_attrs pk mult attrs =
     attrs(''ic_amplitude'' \<mapsto> amplitude pk, ''ic_integral'' \<mapsto> integral pk,
           ''ic_centroid'' \<mapsto> centroid pk, ''ic_multiplicity'' \<mapsto> mult)"

text \<open>\<^verbatim>\<open>create_dataset(..., shape=pc.cloud.shape)\<close>: an array of zeros of that shape.\<close>

definition zeros_like :: "cloud \<Rightarrow> cloud" where
  "zeros_like c = map (map (\<lambda>_. 0)) c"

text \<open>
  Lines 147 to 233 for one event whose GET data exist: the dataset as it stands at the
  end of the iteration. \<open>pc\<close> is the cloud loaded from the GET event.
\<close>

definition make_dataset ::
  "('e, 'f, 'k) cloud_engine \<Rightarrow> frib_parameters \<Rightarrow> detector_parameters \<Rightarrow> 'k option \<Rightarrow>
   (int \<rightharpoonup> 'f) \<Rightarrow> int \<Rightarrow> cloud \<Rightarrow> pc_dataset" where
  "make_dataset eng frib_params detector_params corrector frib_evt_group idx pc =
     (let pc_dataset = \<lparr>ds_data = zeros_like pc, ds_attrs = default_ic_attrs\<rparr>;
          calibrated = (\<lambda>ic_correction.
             calibrate_z_position eng pc (micromegas_time_bucket detector_params)
               (window_time_bucket detector_params) (detector_length detector_params)
               corrector ic_correction)
      in case frib_evt_group idx of
           None \<Rightarrow> pc_dataset\<lparr>ds_data := calibrated None\<rparr>
         | Some frib_data \<Rightarrow>
             if correct_ic_time frib_params then
               (case get_good_ic_peak eng frib_data frib_params of
                  None \<Rightarrow> pc_dataset\<lparr>ds_data := calibrated None\<rparr>
                | Some (mult, pk) \<Rightarrow>
                    (let pc_dataset1 =
                           pc_dataset\<lparr>ds_attrs := set_ic_attrs pk mult (ds_attrs pc_dataset)\<rparr>;
                         ic_cor = fe_correct_ic_time eng frib_data pk frib_params
                                    (get_frequency detector_params)
                     in if ic_cor < 512 then pc_dataset1\<lparr>ds_data := calibrated (Some ic_cor)\<rparr>
                        else pc_dataset1\<lparr>ds_data := calibrated None\<rparr>))
             else
               (let ic_mult = get_ic_multiplicity eng frib_data frib_params;
                    ic_peak = get_triggering_ic_peak eng frib_data frib_params;
                    pc_dataset1 =
                      (case ic_peak of
                         Some pk \<Rightarrow>
                           if ic_mult \<le> ic_multiplicity frib_params
                           then pc_dataset\<lparr>ds_attrs := set_ic_attrs pk ic_mult (ds_attrs pc_dataset)\<rparr>
                           else pc_dataset
                       | None \<Rightarrow> pc_dataset)
                in pc_dataset1\<lparr>ds_data := calibrated None\<rparr>))"

text \<open>The state of the loop: the progress counter, the queue and the datasets written.\<close>

record cloud_state =
  cs_count :: int
  cs_queue :: "status_message list"
  cs_clouds :: "int \<rightharpoonup> pc_dataset"

text \<open>
  One iteration, lines 131 to 233. A missing \<^verbatim>\<open>evt{idx}_data\<close> raises inside the
  \<^verbatim>\<open>try\<close> and the loop continues. The cloud takes the event number \<open>idx\<close> of the GET
  event, which names the dataset; \<^verbatim>\<open>create_dataset\<close> raises \<^verbatim>\<open>ValueError\<close> on a name
  that exists.
\<close>

definition pointcloud_event ::
  "('e, 'f, 'k) cloud_engine \<Rightarrow> int \<Rightarrow> frib_parameters \<Rightarrow> detector_parameters \<Rightarrow> 'k option \<Rightarrow>
   int \<Rightarrow> (int \<rightharpoonup> 'e) \<Rightarrow> (int \<rightharpoonup> 'f) \<Rightarrow> int \<Rightarrow> cloud_state \<Rightarrow> error + cloud_state" where
  "pointcloud_event eng run frib_params detector_params corrector flush_val event_group
     frib_evt_group idx st =
     (let st1 = (if cs_count st > flush_val
                 then st\<lparr>cs_count := 0,
                         cs_queue := cs_queue st @ [\<lparr>sm_run = run, sm_phase = CLOUD, sm_progress = 1\<rparr>]\<rparr>
                 else st);
          st2 = st1\<lparr>cs_count := cs_count st1 + 1\<rparr>
      in case event_group idx of
           None \<Rightarrow> Inr st2
         | Some event_data \<Rightarrow>
             (let pc = \<lparr>event_number = idx, pc_cloud = load_cloud_from_get_event eng event_data idx\<rparr>
              in case cs_clouds st2 (event_number pc) of
                   Some _ \<Rightarrow> Inl ValueError
                 | None \<Rightarrow>
                     Inr (st2\<lparr>cs_clouds := (cs_clouds st2)(event_number pc \<mapsto>
                            make_dataset eng frib_params detector_params corrector frib_evt_group
                              idx (pc_cloud pc))\<rparr>)))"

fun pointcloud_loop ::
  "('e, 'f, 'k) cloud_engine \<Rightarrow> int \<Rightarrow> frib_parameters \<Rightarrow> detector_parameters \<Rightarrow> 'k option \<Rightarrow>
   int \<Rightarrow> (int \<rightharpoonup> 'e) \<Rightarrow> (int \<rightharpoonup> 'f) \<Rightarrow> int list \<Rightarrow> cloud_state \<Rightarrow> error + cloud_state" where
  "pointcloud_loop eng run frib_params detector_params corrector flush_val event_group
     frib_evt_group [] st = Inr st"
| "pointcloud_loop eng run frib_params detector_params corrector flush_val event_group
     frib_evt_group (idx # rest) st =
     (case pointcloud_event eng run frib_params detector_params corrector flush_val event_group
             frib_evt_group idx st of
        Inl e \<Rightarrow> Inl e
      | Inr st' \<Rightarrow>
          pointcloud_loop eng run frib_params detector_params corrector flush_val event_group
            frib_evt_group rest st')"

text \<open>
  What the phase finds: the trace file (\<open>None\<close> when the path does not exist) and the
  electron corrector that \<^verbatim>\<open>create_electron_corrector\<close> builds.
\<close>

record ('e, 'f, 'k) cloud_env =
  env_trace :: "('e, 'f) trace_file option"
  env_corrector :: 'k

text \<open>
  What the phase leaves behind: whether the point file was opened (mode \<^verbatim>\<open>w\<close>), its
  group \<^verbatim>\<open>cloud\<close> once created, the queue, the log, and whether \<^verbatim>\<open>process_scalers\<close> ran.
\<close>

record cloud_out =
  co_point_file :: bool
  co_cloud_group :: "point_group option"
  co_queue :: "status_message list"
  co_log :: "(log_level \<times> log_message) list"
  co_scalers :: bool

text \<open>
  \<^verbatim>\<open>phase_pointcloud\<close>. \<^verbatim>\<open>flush_val\<close> is \<^verbatim>\<open>int(0.01 * (max_event - min_event))\<close>.
  The test after the lookup of \<^verbatim>\<open>scaler\<close> is made on \<^verbatim>\<open>frib_group\<close>, which is a group
  at that point, so \<^verbatim>\<open>frib_scaler_group\<close> is never \<^verbatim>\<open>None\<close> and \<^verbatim>\<open>process_scalers\<close> runs
  whenever the loop ends.
\<close>

definition phase_pointcloud ::
  "('e, 'f, 'k) cloud_engine \<Rightarrow> int \<Rightarrow> ('e, 'f, 'k) cloud_env \<Rightarrow> frib_parameters \<Rightarrow>
   detector_parameters \<Rightarrow> error + cloud_out" where
  "phase_pointcloud eng run env frib_params detector_params =
     (case env_trace env of
        None \<Rightarrow>
          Inr \<lparr>co_point_file = False, co_cloud_group = None, co_queue = [],
               co_log = [(Warn, RunDoesNotExist run)], co_scalers = False\<rparr>
      | Some trace_file \<Rightarrow>
          (case get_event_range trace_file of
             Inl e \<Rightarrow> Inl e
           | Inr (min_event, max_event) \<Rightarrow>
               (let corrector = (if do_garfield_correction detector_params
                                 then Some (env_corrector env) else None);
                    stopped = (\<lambda>m. Inr \<lparr>co_point_file = True, co_cloud_group = None, co_queue = [],
                                         co_log = [(Error, m)], co_scalers = False\<rparr>)
                in case tf_get trace_file of
                     Missing \<Rightarrow> Inl KeyError
                   | NotGroup \<Rightarrow> stopped (GetGroupDoesNotExist run)
                   | Group event_group \<Rightarrow>
                       (case tf_frib trace_file of
                          Missing \<Rightarrow> Inl KeyError
                        | NotGroup \<Rightarrow> stopped (FribGroupDoesNotExist run)
                        | Group frib_group \<Rightarrow>
                            (case fg_evt frib_group of
                               Missing \<Rightarrow> Inl KeyError
                             | NotGroup \<Rightarrow> stopped (FribEventGroupDoesNotExist run)
                             | Group frib_evt_group \<Rightarrow>
                                 (case fg_scaler frib_group of
                                    Missing \<Rightarrow> Inl KeyError
                                  | _ \<Rightarrow>
                                      (let flush_val = py_int ((max_event - min_event) / 100)
                                       in case pointcloud_loop eng run frib_params detector_params
                                                 corrector flush_val event_group frib_evt_group
                                                 [min_event .. max_event]
                                                 \<lparr>cs_count = 0, cs_queue = [], cs_clouds = Map.empty\<rparr> of
                                            Inl e \<Rightarrow> Inl e
                                          | Inr st \<Rightarrow>
                                              Inr \<lparr>co_point_file = True,
                                                   co_cloud_group =
                                                     Some \<lparr>pg_min_event = min_event,
                                                           pg_max_event = max_event,
                                                           pg_clouds = cs_clouds st\<rparr>,
                                                   co_queue = cs_queue st,
                                                   co_log = [(Info, Phase1Complete)],
                                                   co_scalers = True\<rparr>)))))))"

section \<open>Notions used in the statements\<close>

text \<open>
  The event group that lines 56 to 61 of \<^verbatim>\<open>phase_2\<close> leave for a list of cleaned
  clusters: the count, and under the index \<open>k\<close> the label and the points of the
  \<open>k\<close>-th cluster.
\<close>

definition stored_of :: "cluster \<Rightarrow> stored_cluster" where
  "stored_of c = \<lparr>sc_label = c_label c, sc_cloud = c_cloud c\<rparr>"

definition event_group_of :: "cluster list \<Rightarrow> event_group" where
  "event_group_of cs =
     \<lparr>nclusters = int (length cs),
      eg_clusters = (\<lambda>k. if 0 \<le> k \<and> k < int (length cs) then Some (stored_of (cs ! nat k)) else None)\<rparr>"

text \<open>An event of the point file that has a cloud of at least \<^verbatim>\<open>min_write_size\<close> points.\<close>

definition clusterable :: "cluster_engine \<Rightarrow> cluster_parameters \<Rightarrow> point_group \<Rightarrow> int \<Rightarrow> bool" where
  "clusterable eng cluster_params cloud_group idx =
     (case pg_clouds cloud_group idx of
        None \<Rightarrow> False
      | Some cloud_data \<Rightarrow>
          \<not> int (length (pc_cloud (load_cloud_from_hdf5_data eng (ds_data cloud_data) idx)))
               < min_write_size cluster_params)"

text \<open>The cleaned clusters of the event \<open>idx\<close> of the point file.\<close>

definition cleaned_at :: "cluster_engine \<Rightarrow> cluster_parameters \<Rightarrow> point_group \<Rightarrow> int \<Rightarrow> cluster list" where
  "cleaned_at eng cluster_params cloud_group idx =
     (case pg_clouds cloud_group idx of
        None \<Rightarrow> []
      | Some cloud_data \<Rightarrow>
          cleaned_of eng cluster_params (load_cloud_from_hdf5_data eng (ds_data cloud_data) idx))"

text \<open>
  The solver invocation the loop of the solve phase makes for a gated row, when the
  cluster of the row is stored in the cluster file.
\<close>

definition call_of_row ::
  "cluster_group h5_entry \<Rightarrow> direction option \<Rightarrow> estimate_row \<Rightarrow> solver_call option" where
  "call_of_row cluster_group dir r =
     (case lookup_event cluster_group (e_event r) of
        Inl _ \<Rightarrow> None
      | Inr g \<Rightarrow>
          (case eg_clusters g (e_cluster_index r) of
             None \<Rightarrow> None
           | Some lc \<Rightarrow>
               Some \<lparr>call_cidx = e_cluster_index r,
                     call_cluster = \<lparr>c_event = e_event r, c_label = sc_label lc, c_cloud = sc_cloud lc\<rparr>,
                     call_guess = guess_of_row dir r\<rparr>))"

definition run_call :: "solver \<Rightarrow> solver_call \<Rightarrow> result_row list \<Rightarrow> result_row list" where
  "run_call s c res = s (call_cidx c) (call_cluster c) (call_guess c) res"

text \<open>
  Modelled from the spec: \<^verbatim>\<open>solve_physics_interp\<close> of \<^verbatim>\<open>solvers/solver_interp.py\<close>, which
  is not among the sources. The solver phase yields one row per successfully fit cluster,
  with the event, the cluster index, the cluster label and the fitted values; the row of
  a cluster whose fit fails is omitted. The fit itself is the parameter \<open>fit\<close>.
\<close>

definition solve_physics_interp :: "(cluster \<Rightarrow> guess \<Rightarrow> fit_values option) \<Rightarrow> solver" where
  "solve_physics_interp fit cidx cluster guess results =
     (case fit cluster guess of
        None \<Rightarrow> results
      | Some v \<Rightarrow>
          results @ [\<lparr>r_event = c_event cluster, r_cluster_index = cidx,
                      r_cluster_label = c_label cluster, r_fit = v\<rparr>])"

text \<open>The dataset the point-cloud phase leaves for the event \<open>idx\<close>, if any.\<close>

definition dataset_at ::
  "('e, 'f, 'k) cloud_engine \<Rightarrow> frib_parameters \<Rightarrow> detector_parameters \<Rightarrow> 'k option \<Rightarrow>
   (int \<rightharpoonup> 'e) \<Rightarrow> (int \<rightharpoonup> 'f) \<Rightarrow> int \<Rightarrow> pc_dataset option" where
  "dataset_at eng frib_params detector_params corrector event_group frib_evt_group idx =
     (case event_group idx of
        None \<Rightarrow> None
      | Some event_data \<Rightarrow>
          Some (make_dataset eng frib_params detector_params corrector frib_evt_group idx
                  (load_cloud_from_get_event eng event_data idx)))"

text \<open>
  A qualifying ion-chamber peak, in the words of the specification: with the IC time
  correction on, the good peak and its multiplicity; with it off, the triggering peak
  when the multiplicity is within the configured bound. Without FRIB data there is none.
\<close>

definition qualifying_ic_peak ::
  "('e, 'f, 'k) cloud_engine \<Rightarrow> frib_parameters \<Rightarrow> 'f option \<Rightarrow> (peak \<times> real) option" where
  "qualifying_ic_peak eng frib_params frib =
     (case frib of
        None \<Rightarrow> None
      | Some frib_data \<Rightarrow>
          if correct_ic_time frib_params then
            (case get_good_ic_peak eng frib_data frib_params of
               None \<Rightarrow> None
             | Some (mult, pk) \<Rightarrow> Some (pk, mult))
          else
            (case get_triggering_ic_peak eng frib_data frib_params of
               None \<Rightarrow> None
             | Some pk \<Rightarrow>
                 if get_ic_multiplicity eng frib_data frib_params \<le> ic_multiplicity frib_params
                 then Some (pk, get_ic_multiplicity eng frib_data frib_params)
                 else None))"

section \<open>A small run of the three phases\<close>

text \<open>
  A trace file with the events 0 and 2 between the bounds 0 and 2 (event 1 has no data),
  FRIB data for event 0 only, and an engine that is simple enough to evaluate.
\<close>

definition example_get_cloud :: "cloud \<Rightarrow> int \<Rightarrow> cloud" where
  "example_get_cloud event_data idx = event_data"

definition example_calibrate ::
  "cloud \<Rightarrow> real \<Rightarrow> real \<Rightarrow> real \<Rightarrow> real option \<Rightarrow> real option \<Rightarrow> cloud" where
  "example_calibrate pc mm w l corrector ic_correction =
     (case ic_correction of None \<Rightarrow> pc | Some c \<Rightarrow> [c] # pc)"

definition example_good_ic :: "real \<Rightarrow> frib_parameters \<Rightarrow> (real \<times> peak) option" where
  "example_good_ic f frib_params =
     (if 0 < f then Some (1, \<lparr>amplitude = f, integral = 2 * f, centroid = 40\<rparr>) else None)"

definition example_ic_cor :: "real \<Rightarrow> peak \<Rightarrow> frib_parameters \<Rightarrow> real \<Rightarrow> real" where
  "example_ic_cor f pk frib_params freq = amplitude pk"

definition example_ic_mult :: "real \<Rightarrow> frib_parameters \<Rightarrow> real" where
  "example_ic_mult f frib_params = 1"

definition example_trigger :: "real \<Rightarrow> frib_parameters \<Rightarrow> peak option" where
  "example_trigger f frib_params =
     (if 0 < f then Some \<lparr>amplitude = f, integral = 2 * f, centroid = 40\<rparr> else None)"

definition example_cloud_engine :: "(cloud, real, real) cloud_engine" where
  "example_cloud_engine =
     \<lparr>load_cloud_from_get_event = example_get_cloud, calibrate_z_position = example_calibrate,
      get_good_ic_peak = example_good_ic, fe_correct_ic_time = example_ic_cor,
      get_ic_multiplicity = example_ic_mult, get_triggering_ic_peak = example_trigger\<rparr>"

definition example_frib :: "real frib_group" where
  "example_frib = \<lparr>fg_evt = Group [0 \<mapsto> 300], fg_scaler = Group ()\<rparr>"

definition example_trace :: "(cloud, real) trace_file" where
  "example_trace =
     \<lparr>tf_meta = [0, 0, 2, 0],
      tf_get = Group [0 \<mapsto> [[1, 2, 3], [4, 5, 6]], 2 \<mapsto> [[7, 8, 9]]],
      tf_frib = Group example_frib\<rparr>"

definition example_cloud_env :: "(cloud, real, real) cloud_env" where
  "example_cloud_env = \<lparr>env_trace = Some example_trace, env_corrector = 0\<rparr>"

definition example_frib_params :: frib_parameters where
  "example_frib_params = \<lparr>correct_ic_time = True, ic_multiplicity = 1\<rparr>"

definition example_detector :: detector_parameters where
  "example_detector =
     \<lparr>micromegas_time_bucket = 10, window_time_bucket = 500, detector_length = 1000,
      get_frequency = 6, do_garfield_correction = False\<rparr>"

text \<open>
  The point file of that run, and a clustering engine that splits a cloud into its first
  point, labelled 7, and the rest, labelled 9.
\<close>

definition example_points :: point_group where
  "example_points =
     \<lparr>pg_min_event = 0, pg_max_event = 2,
      pg_clouds = [0 \<mapsto> \<lparr>ds_data = [[300], [1, 2, 3], [4, 5, 6]],
                         ds_attrs = set_ic_attrs \<lparr>amplitude = 300, integral = 600, centroid = 40\<rparr> 1
                                      default_ic_attrs\<rparr>,
                   2 \<mapsto> \<lparr>ds_data = [[7, 8, 9]], ds_attrs = default_ic_attrs\<rparr>]\<rparr>"

definition example_load :: "cloud \<Rightarrow> int \<Rightarrow> point_cloud" where
  "example_load cloud_data idx = \<lparr>event_number = idx, pc_cloud = cloud_data\<rparr>"

definition example_clusterize :: "point_cloud \<Rightarrow> cluster_parameters \<Rightarrow> cluster list" where
  "example_clusterize c cluster_params =
     [\<lparr>c_event = event_number c, c_label = 7, c_cloud = take 1 (pc_cloud c)\<rparr>,
      \<lparr>c_event = event_number c, c_label = 9, c_cloud = drop 1 (pc_cloud c)\<rparr>]"

definition example_join :: "cluster list \<Rightarrow> cluster_parameters \<Rightarrow> cluster list" where
  "example_join cs cluster_params = cs"

definition example_cleanup :: "cluster list \<Rightarrow> cluster_parameters \<Rightarrow> cluster list" where
  "example_cleanup cs cluster_params = cs"

definition example_engine :: cluster_engine where
  "example_engine =
     \<lparr>load_cloud_from_hdf5_data = example_load, clusterize = example_clusterize,
      join_clusters = example_join, cleanup_clusters = example_cleanup\<rparr>"

definition example_params :: cluster_parameters where
  "example_params = \<lparr>min_write_size = 2\<rparr>"

text \<open>The cluster group that \<^verbatim>\<open>phase_2\<close> writes from that point file.\<close>

definition example_clusters :: cluster_group where
  "example_clusters =
     \<lparr>cg_min_event = 0, cg_max_event = 2,
      cg_events = [0 \<mapsto> \<lparr>nclusters = 2,
                           eg_clusters = [0 \<mapsto> \<lparr>sc_label = 7, sc_cloud = [[300]]\<rparr>,
                                          1 \<mapsto> \<lparr>sc_label = 9, sc_cloud = [[1, 2, 3], [4, 5, 6]]\<rparr>]\<rparr>]\<rparr>"

text \<open>
  Three estimates of event 0, all inside the particle-ID cut: the third has the largest
  polar angle but an amplitude on the upper bound, so the second one is the gated row.
\<close>

definition example_inside :: "real \<Rightarrow> real \<Rightarrow> bool" where
  "example_inside dEdx b \<longleftrightarrow> 0 < dEdx"

definition example_pid :: particle_id where
  "example_pid = \<lparr>nucleus = ''p'', is_cols_inside = example_inside\<rparr>"

definition example_solver_params :: solver_parameters where
  "example_solver_params = \<lparr>ic_min_val = 10, ic_max_val = 100\<rparr>"

definition example_row :: "int \<Rightarrow> real \<Rightarrow> real \<Rightarrow> estimate_row" where
  "example_row cidx p ic =
     \<lparr>e_event = 0, e_cluster_index = cidx, e_dEdx = 1, e_brho = 2, e_polar = p,
      e_azimuthal = 3, e_vertex_x = 4, e_vertex_y = 5, e_vertex_z = 6, e_ic_amplitude = ic\<rparr>"

definition example_estimates :: "estimate_row list" where
  "example_estimates = [example_row 0 1 50, example_row 1 2 50, example_row 0 3 100]"

definition example_env :: solve_env where
  "example_env =
     \<lparr>env_pid = Some example_pid, env_target = GasTarget,
      env_cluster_file = Some (Group example_clusters),
      env_estimates = Some example_estimates\<rparr>"

definition example_fit_values :: fit_values where
  "example_fit_values =
     \<lparr>vertex_x = 4, sigma_vx = 0, vertex_y = 5, sigma_vy = 0, vertex_z = 6, sigma_vz = 0,
      brho = 2, sigma_brho = 0, polar = 2, sigma_polar = 0, azimuthal = 3,
      sigma_azimuthal = 0, redchisq = 1\<rparr>"

definition example_fit :: "cluster \<Rightarrow> guess \<Rightarrow> fit_values option" where
  "example_fit c g = Some example_fit_values"

text \<open>A solver that does not touch the result table.\<close>

definition example_solver :: solver where
  "example_solver cidx c g results = results"

section \<open>The clustering phase: what the loop leaves\<close>

lemma write_clusters_result:
  "\<forall>k\<ge>n. eg_clusters g k = None \<Longrightarrow>
   write_clusters n cs g =
     Inr (g\<lparr>eg_clusters := (\<lambda>k. if n \<le> k \<and> k < n + int (length cs)
                                 then Some (stored_of (cs ! nat (k - n))) else eg_clusters g k)\<rparr>)"
proof (induction cs arbitrary: n g)
  case Nil
  then show ?case by (simp add: fun_eq_iff)
next
  case (Cons c cs)
  let ?g = "g\<lparr>eg_clusters := (eg_clusters g)(n \<mapsto> \<lparr>sc_label = c_label c, sc_cloud = c_cloud c\<rparr>)\<rparr>"
  have free: "eg_clusters g n = None" using Cons.prems by simp
  have "\<forall>k\<ge>n + 1. eg_clusters ?g k = None" using Cons.prems by simp
  from Cons.IH [OF this]
  have "write_clusters (n + 1) cs ?g =
     Inr (?g\<lparr>eg_clusters := (\<lambda>k. if n + 1 \<le> k \<and> k < n + 1 + int (length cs)
                                 then Some (stored_of (cs ! nat (k - (n + 1)))) else eg_clusters ?g k)\<rparr>)" .
  moreover have "(\<lambda>k. if n + 1 \<le> k \<and> k < n + 1 + int (length cs)
                                 then Some (stored_of (cs ! nat (k - (n + 1)))) else eg_clusters ?g k)
     = (\<lambda>k. if n \<le> k \<and> k < n + int (length (c # cs))
                                 then Some (stored_of ((c # cs) ! nat (k - n))) else eg_clusters g k)"
  proof (rule ext)
    fix k
    show "(if n + 1 \<le> k \<and> k < n + 1 + int (length cs)
                                 then Some (stored_of (cs ! nat (k - (n + 1)))) else eg_clusters ?g k)
     = (if n \<le> k \<and> k < n + int (length (c # cs))
                                 then Some (stored_of ((c # cs) ! nat (k - n))) else eg_clusters g k)"
    proof (cases "k = n")
      case True
      then show ?thesis by (simp add: stored_of_def)
    next
      case False
      have "n + 1 \<le> k \<Longrightarrow> nat (k - n) = Suc (nat (k - (n + 1)))" by simp
      with False show ?thesis by auto
    qed
  qed
  ultimately show ?case using free by simp
qed

lemma write_event_result:
  "cg_events cg idx = None \<Longrightarrow>
   write_event idx cleaned cg = Inr (cg\<lparr>cg_events := (cg_events cg)(idx \<mapsto> event_group_of cleaned)\<rparr>)"
  by (simp add: write_event_def write_clusters_result event_group_of_def cong: if_cong)


lemma phase_2_event_result:
  "cg_events (p2_group st) idx = None \<Longrightarrow>
   phase_2_event eng cp pg idx st =
     Inr (st\<lparr>p2_group := (if clusterable eng cp pg idx
                           then (p2_group st)\<lparr>cg_events := (cg_events (p2_group st))
                                  (idx \<mapsto> event_group_of (cleaned_at eng cp pg idx))\<rparr>
                           else p2_group st),
             p2_loaded := p2_loaded st @ (if pg_clouds pg idx \<noteq> None then [idx] else []),
             p2_clusterized := p2_clusterized st @ (if clusterable eng cp pg idx then [idx] else [])\<rparr>)"
  by (cases "pg_clouds pg idx")
     (simp_all add: phase_2_event_def clusterable_def cleaned_at_def write_event_result Let_def)

lemma phase_2_loop_result:
  "distinct xs \<Longrightarrow> \<forall>i\<in>set xs. cg_events (p2_group st) i = None \<Longrightarrow>
   \<exists>st'. phase_2_loop eng cp pg xs st = Inr st'
     \<and> p2_loaded st' = p2_loaded st @ filter (\<lambda>i. pg_clouds pg i \<noteq> None) xs
     \<and> p2_clusterized st' = p2_clusterized st @ filter (clusterable eng cp pg) xs
     \<and> cg_min_event (p2_group st') = cg_min_event (p2_group st)
     \<and> cg_max_event (p2_group st') = cg_max_event (p2_group st)
     \<and> (\<forall>i. cg_events (p2_group st') i =
              (if i \<in> set xs \<and> clusterable eng cp pg i
               then Some (event_group_of (cleaned_at eng cp pg i))
               else cg_events (p2_group st) i))"
proof (induction xs arbitrary: st)
  case Nil
  then show ?case by simp
next
  case (Cons x xs)
  have free: "cg_events (p2_group st) x = None" using Cons.prems by simp
  define st1 where "st1 = st\<lparr>p2_group := (if clusterable eng cp pg x
                           then (p2_group st)\<lparr>cg_events := (cg_events (p2_group st))
                                  (x \<mapsto> event_group_of (cleaned_at eng cp pg x))\<rparr>
                           else p2_group st),
             p2_loaded := p2_loaded st @ (if pg_clouds pg x \<noteq> None then [x] else []),
             p2_clusterized := p2_clusterized st @ (if clusterable eng cp pg x then [x] else [])\<rparr>"
  have st1: "phase_2_event eng cp pg x st = Inr st1"
    unfolding st1_def by (rule phase_2_event_result [OF free])
  have l1: "p2_loaded st1 = p2_loaded st @ (if pg_clouds pg x \<noteq> None then [x] else [])"
    by (simp add: st1_def)
  have c1: "p2_clusterized st1 = p2_clusterized st @ (if clusterable eng cp pg x then [x] else [])"
    by (simp add: st1_def)
  have g1: "p2_group st1 = (if clusterable eng cp pg x
                           then (p2_group st)\<lparr>cg_events := (cg_events (p2_group st))
                                  (x \<mapsto> event_group_of (cleaned_at eng cp pg x))\<rparr>
                           else p2_group st)"
    by (simp add: st1_def)
  have "distinct xs" using Cons.prems by simp
  moreover have "\<forall>i\<in>set xs. cg_events (p2_group st1) i = None"
    using Cons.prems g1 by auto
  ultimately obtain st' where loop: "phase_2_loop eng cp pg xs st1 = Inr st'"
     and l': "p2_loaded st' = p2_loaded st1 @ filter (\<lambda>i. pg_clouds pg i \<noteq> None) xs"
     and c': "p2_clusterized st' = p2_clusterized st1 @ filter (clusterable eng cp pg) xs"
     and mn: "cg_min_event (p2_group st') = cg_min_event (p2_group st1)"
     and mx: "cg_max_event (p2_group st') = cg_max_event (p2_group st1)"
     and ev: "\<forall>i. cg_events (p2_group st') i =
              (if i \<in> set xs \<and> clusterable eng cp pg i
               then Some (event_group_of (cleaned_at eng cp pg i))
               else cg_events (p2_group st1) i)"
    using Cons.IH [of st1] by blast
  have "phase_2_loop eng cp pg (x # xs) st = Inr st'" using st1 loop by simp
  moreover have "p2_loaded st' = p2_loaded st @ filter (\<lambda>i. pg_clouds pg i \<noteq> None) (x # xs)"
    using l' l1 by simp
  moreover have "p2_clusterized st' = p2_clusterized st @ filter (clusterable eng cp pg) (x # xs)"
    using c' c1 by simp
  moreover have "cg_min_event (p2_group st') = cg_min_event (p2_group st)" using mn g1 by simp
  moreover have "cg_max_event (p2_group st') = cg_max_event (p2_group st)" using mx g1 by simp
  moreover have "\<forall>i. cg_events (p2_group st') i =
              (if i \<in> set (x # xs) \<and> clusterable eng cp pg i
               then Some (event_group_of (cleaned_at eng cp pg i))
               else cg_events (p2_group st) i)"
    using ev g1 by auto
  ultimately show ?case by blast
qed

lemma phase_2_result:
  "\<exists>st. phase_2 eng cp pg = Inr st
     \<and> p2_loaded st = filter (\<lambda>i. pg_clouds pg i \<noteq> None) [pg_min_event pg .. pg_max_event pg]
     \<and> p2_clusterized st = filter (clusterable eng cp pg) [pg_min_event pg .. pg_max_event pg]
     \<and> cg_min_event (p2_group st) = pg_min_event pg
     \<and> cg_max_event (p2_group st) = pg_max_event pg
     \<and> (\<forall>i. cg_events (p2_group st) i =
              (if pg_min_event pg \<le> i \<and> i \<le> pg_max_event pg \<and> clusterable eng cp pg i
               then Some (event_group_of (cleaned_at eng cp pg i))
               else None))"
proof -
  let ?st0 = "\<lparr>p2_group = \<lparr>cg_min_event = pg_min_event pg, cg_max_event = pg_max_event pg,
                     cg_events = Map.empty\<rparr>, p2_loaded = [], p2_clusterized = []\<rparr>"
  let ?xs = "[pg_min_event pg .. pg_max_event pg]"
  have d: "distinct ?xs" by simp
  have f: "\<forall>i\<in>set ?xs. cg_events (p2_group ?st0) i = None" by simp
  from phase_2_loop_result [OF d f, of eng cp pg]
  obtain st where "phase_2_loop eng cp pg ?xs ?st0 = Inr st"
     and "p2_loaded st = p2_loaded ?st0 @ filter (\<lambda>i. pg_clouds pg i \<noteq> None) ?xs"
     and "p2_clusterized st = p2_clusterized ?st0 @ filter (clusterable eng cp pg) ?xs"
     and "cg_min_event (p2_group st) = cg_min_event (p2_group ?st0)"
     and "cg_max_event (p2_group st) = cg_max_event (p2_group ?st0)"
     and "\<forall>i. cg_events (p2_group st) i =
              (if i \<in> set ?xs \<and> clusterable eng cp pg i
               then Some (event_group_of (cleaned_at eng cp pg i))
               else cg_events (p2_group ?st0) i)"
    by blast
  then show ?thesis
    unfolding phase_2_def by (intro exI [of _ st]) simp
qed

section \<open>The solve phase: gating and the loop\<close>

lemma unique_event_subset: "set (unique_event seen rs) \<subseteq> set rs"
  by (induction rs arbitrary: seen) auto

lemma unique_event_unseen: "k \<in> set (unique_event seen rs) \<Longrightarrow> e_event k \<notin> set seen"
proof (induction rs arbitrary: seen)
  case Nil
  then show ?case by simp
next
  case (Cons r rs)
  show ?case
  proof (cases "e_event r \<in> set seen")
    case True
    with Cons.prems have "k \<in> set (unique_event seen rs)" by simp
    then show ?thesis by (rule Cons.IH)
  next
    case False
    with Cons.prems have "k = r \<or> k \<in> set (unique_event (e_event r # seen) rs)" by simp
    then show ?thesis
    proof
      assume "k = r"
      with False show ?thesis by simp
    next
      assume "k \<in> set (unique_event (e_event r # seen) rs)"
      then have "e_event k \<notin> set (e_event r # seen)" by (rule Cons.IH)
      then show ?thesis by simp
    qed
  qed
qed

lemma unique_event_distinct: "distinct (map e_event (unique_event seen rs))"
proof (induction rs arbitrary: seen)
  case Nil
  then show ?case by simp
next
  case (Cons r rs)
  have "e_event r \<notin> e_event ` set (unique_event (e_event r # seen) rs)"
  proof
    assume "e_event r \<in> e_event ` set (unique_event (e_event r # seen) rs)"
    then obtain k where k: "k \<in> set (unique_event (e_event r # seen) rs)" "e_event k = e_event r"
      by auto
    from unique_event_unseen [OF k(1)] k(2) show False by simp
  qed
  with Cons show ?case by simp
qed

lemma unique_event_keeps_first:
  "sorted_wrt (\<lambda>a b. e_polar b \<le> e_polar a) rs \<Longrightarrow> r \<in> set rs \<Longrightarrow> e_event r \<notin> set seen \<Longrightarrow>
   \<exists>k\<in>set (unique_event seen rs). e_event k = e_event r \<and> e_polar r \<le> e_polar k"
proof (induction rs arbitrary: seen)
  case Nil
  then show ?case by simp
next
  case (Cons r0 rs)
  have srt: "sorted_wrt (\<lambda>a b. e_polar b \<le> e_polar a) rs"
    and hd: "\<forall>b\<in>set rs. e_polar b \<le> e_polar r0"
    using Cons.prems(1) by simp_all
  show ?case
  proof (cases "e_event r0 \<in> set seen")
    case True
    then have "r \<in> set rs" using Cons.prems by auto
    from Cons.IH [OF srt this Cons.prems(3)] show ?thesis using True by simp
  next
    case False
    show ?thesis
    proof (cases "e_event r = e_event r0")
      case True
      have "e_polar r \<le> e_polar r0" using Cons.prems(2) hd by auto
      then show ?thesis using False True by auto
    next
      case diff: False
      then have "r \<in> set rs" using Cons.prems(2) by auto
      moreover have "e_event r \<notin> set (e_event r0 # seen)" using diff Cons.prems(3) by simp
      ultimately obtain k where "k \<in> set (unique_event (e_event r0 # seen) rs)"
        "e_event k = e_event r" "e_polar r \<le> e_polar k"
        using Cons.IH [OF srt] by blast
      then show ?thesis using False by auto
    qed
  qed
qed

lemma sort_polar_descending_sorted:
  "sorted_wrt (\<lambda>a b. e_polar b \<le> e_polar a) (sort_polar_descending rs)"
proof -
  have "sorted (map (\<lambda>r. - e_polar r) (sort_key (\<lambda>r. - e_polar r) rs))"
    by (rule sorted_sort_key)
  then show ?thesis by (simp add: sort_polar_descending_def sorted_map)
qed

lemma set_sort_polar_descending: "set (sort_polar_descending rs) = set rs"
  by (simp add: sort_polar_descending_def)

lemma estimates_gated_subset:
  "set (estimates_gated pid sp rows) \<subseteq> {r \<in> set rows. gate pid sp r}"
  using unique_event_subset [of "[]" "sort_polar_descending (filter (gate pid sp) rows)"]
  by (auto simp: estimates_gated_def set_sort_polar_descending)

lemma estimates_gated_distinct: "distinct (map e_event (estimates_gated pid sp rows))"
  by (simp add: estimates_gated_def unique_event_distinct)

lemma estimates_gated_largest:
  assumes "r \<in> set rows" "gate pid sp r"
  shows "\<exists>k\<in>set (estimates_gated pid sp rows). e_event k = e_event r \<and> e_polar r \<le> e_polar k"
proof -
  have "r \<in> set (sort_polar_descending (filter (gate pid sp) rows))"
    using assms by (simp add: set_sort_polar_descending)
  from unique_event_keeps_first [OF sort_polar_descending_sorted this, of "[]"]
  show ?thesis by (simp add: estimates_gated_def)
qed

lemma solve_row_call:
  assumes "solve_row s msg dir fv cg r st = Inr st'"
  shows "\<exists>c. call_of_row cg dir r = Some c \<and> ss_calls st' = ss_calls st @ [c]
            \<and> ss_results st' = run_call s c (ss_results st)"
  using assms
  by (auto simp: solve_row_def call_of_row_def run_call_def Let_def
           split: sum.splits option.splits if_splits)

lemma solve_loop_calls:
  "solve_loop s msg dir fv cg rs st = Inr st' \<Longrightarrow>
   \<exists>cs. map (call_of_row cg dir) rs = map Some cs \<and> ss_calls st' = ss_calls st @ cs
        \<and> ss_results st' = fold (run_call s) cs (ss_results st)"
proof (induction rs arbitrary: st)
  case Nil
  then show ?case by simp
next
  case (Cons r rs)
  from Cons.prems obtain st1 where r1: "solve_row s msg dir fv cg r st = Inr st1"
    and l1: "solve_loop s msg dir fv cg rs st1 = Inr st'"
    by (auto split: sum.splits)
  from solve_row_call [OF r1] obtain c where c: "call_of_row cg dir r = Some c"
    "ss_calls st1 = ss_calls st @ [c]" "ss_results st1 = run_call s c (ss_results st)"
    by blast
  from Cons.IH [OF l1] obtain cs where cs: "map (call_of_row cg dir) rs = map Some cs"
    "ss_calls st' = ss_calls st1 @ cs" "ss_results st' = fold (run_call s) cs (ss_results st1)"
    by blast
  have "map (call_of_row cg dir) (r # rs) = map Some (c # cs)" using c cs by simp
  moreover have "ss_calls st' = ss_calls st @ (c # cs)" using c cs by simp
  moreover have "ss_results st' = fold (run_call s) (c # cs) (ss_results st)" using c cs by simp
  ultimately show ?case by blast
qed

lemma fold_solve_physics_interp_rows:
  "r \<in> set (fold (run_call (solve_physics_interp fit)) cs res) \<Longrightarrow>
   r \<in> set res \<or> (\<exists>c\<in>set cs. r_event r = c_event (call_cluster c)
                      \<and> r_cluster_index r = call_cidx c
                      \<and> r_cluster_label r = c_label (call_cluster c))"
proof (induction cs arbitrary: res)
  case Nil
  then show ?case by simp
next
  case (Cons c cs)
  from Cons.IH [of "run_call (solve_physics_interp fit) c res"] Cons.prems
  have "r \<in> set (run_call (solve_physics_interp fit) c res) \<or>
      (\<exists>c\<in>set cs. r_event r = c_event (call_cluster c) \<and> r_cluster_index r = call_cidx c
                      \<and> r_cluster_label r = c_label (call_cluster c))" by simp
  moreover have "r \<in> set (run_call (solve_physics_interp fit) c res) \<Longrightarrow>
     r \<in> set res \<or> (r_event r = c_event (call_cluster c) \<and> r_cluster_index r = call_cidx c
                      \<and> r_cluster_label r = c_label (call_cluster c))"
    by (auto simp: run_call_def solve_physics_interp_def split: option.splits)
  ultimately show ?case by auto
qed

section \<open>The point-cloud phase: what the loop leaves\<close>

lemma pointcloud_event_result:
  "cs_clouds st idx = None \<Longrightarrow>
   \<exists>st'. pointcloud_event eng run fp dp cor fv eg fg idx st = Inr st'
      \<and> cs_clouds st' = (cs_clouds st)(idx := dataset_at eng fp dp cor eg fg idx)"
  by (cases "eg idx") (auto simp: pointcloud_event_def dataset_at_def Let_def)

lemma pointcloud_loop_result:
  "distinct xs \<Longrightarrow> \<forall>i\<in>set xs. cs_clouds st i = None \<Longrightarrow>
   \<exists>st'. pointcloud_loop eng run fp dp cor fv eg fg xs st = Inr st'
      \<and> (\<forall>i. cs_clouds st' i =
               (if i \<in> set xs then dataset_at eng fp dp cor eg fg i else cs_clouds st i))"
proof (induction xs arbitrary: st)
  case Nil
  then show ?case by simp
next
  case (Cons x xs)
  have "cs_clouds st x = None" using Cons.prems by simp
  from pointcloud_event_result [OF this, of eng run fp dp cor fv eg fg]
  obtain st1 where e1: "pointcloud_event eng run fp dp cor fv eg fg x st = Inr st1"
    and c1: "cs_clouds st1 = (cs_clouds st)(x := dataset_at eng fp dp cor eg fg x)"
    by blast
  have "distinct xs" using Cons.prems by simp
  moreover have "\<forall>i\<in>set xs. cs_clouds st1 i = None" using Cons.prems c1 by auto
  ultimately obtain st' where l: "pointcloud_loop eng run fp dp cor fv eg fg xs st1 = Inr st'"
    and c': "\<forall>i. cs_clouds st' i =
               (if i \<in> set xs then dataset_at eng fp dp cor eg fg i else cs_clouds st1 i)"
    using Cons.IH [of st1] by blast
  have "pointcloud_loop eng run fp dp cor fv eg fg (x # xs) st = Inr st'" using e1 l by simp
  moreover have "\<forall>i. cs_clouds st' i =
               (if i \<in> set (x # xs) then dataset_at eng fp dp cor eg fg i else cs_clouds st i)"
    using c' c1 by auto
  ultimately show ?case by blast
qed

lemma phase_pointcloud_result:
  assumes "env_trace env = Some tf" and "\<not> length (tf_meta tf) < 3"
    and "tf_get tf = Group eg" and "tf_frib tf = Group fgrp" and "fg_evt fgrp = Group fg"
    and "fg_scaler fgrp \<noteq> Missing"
  shows "\<exists>out pg. phase_pointcloud eng run env fp dp = Inr out
     \<and> co_cloud_group out = Some pg
     \<and> pg_min_event pg = py_int (tf_meta tf ! 0)
     \<and> pg_max_event pg = py_int (tf_meta tf ! 2)
     \<and> (\<forall>i. pg_clouds pg i =
             (if py_int (tf_meta tf ! 0) \<le> i \<and> i \<le> py_int (tf_meta tf ! 2)
              then dataset_at eng fp dp
                     (if do_garfield_correction dp then Some (env_corrector env) else None) eg fg i
              else None))"
proof -
  let ?mn = "py_int (tf_meta tf ! 0)" and ?mx = "py_int (tf_meta tf ! 2)"
  let ?cor = "if do_garfield_correction dp then Some (env_corrector env) else None"
  let ?st0 = "\<lparr>cs_count = 0, cs_queue = [], cs_clouds = Map.empty\<rparr>"
  let ?fv = "py_int ((?mx - ?mn) / 100)"
  have d: "distinct [?mn .. ?mx]" by simp
  have f: "\<forall>i\<in>set [?mn .. ?mx]. cs_clouds ?st0 i = None" by simp
  from pointcloud_loop_result [OF d f, of eng run fp dp ?cor ?fv eg fg]
  obtain st where l: "pointcloud_loop eng run fp dp ?cor ?fv eg fg [?mn .. ?mx] ?st0 = Inr st"
    and c: "\<forall>i. cs_clouds st i =
               (if i \<in> set [?mn .. ?mx] then dataset_at eng fp dp ?cor eg fg i else cs_clouds ?st0 i)"
    by blast
  have r: "get_event_range tf = Inr (?mn, ?mx)"
    using assms(2) by (simp add: get_event_range_def Let_def)
  have "phase_pointcloud eng run env fp dp =
      Inr \<lparr>co_point_file = True,
           co_cloud_group = Some \<lparr>pg_min_event = ?mn, pg_max_event = ?mx, pg_clouds = cs_clouds st\<rparr>,
           co_queue = cs_queue st, co_log = [(Info, Phase1Complete)], co_scalers = True\<rparr>"
    using assms(1,3,4,5,6) r l
    by (cases "fg_scaler fgrp") (simp_all add: phase_pointcloud_def Let_def)
  then show ?thesis using c by simp
qed

section \<open>The claims about the clustering phase\<close>

text \<open>
  Claim C3. For every event of the range whose loaded cloud has fewer than
  \<^verbatim>\<open>min_write_size\<close> points, \<^verbatim>\<open>phase_2\<close> does not invoke \<^verbatim>\<open>clusterize\<close> and writes no
  group for the event; an event with at least that many points is clustered, joined and
  cleaned, and the event group of the cleaned clusters is written. The phase returns in
  both cases.
\<close>

theorem phase_2_min_write_size:
  assumes "pg_min_event cloud_group \<le> idx" and "idx \<le> pg_max_event cloud_group"
    and "pg_clouds cloud_group idx = Some cloud_data"
  shows "\<exists>st. phase_2 eng cluster_params cloud_group = Inr st \<and>
     (if int (length (pc_cloud (load_cloud_from_hdf5_data eng (ds_data cloud_data) idx)))
           < min_write_size cluster_params
      then idx \<notin> set (p2_clusterized st) \<and> cg_events (p2_group st) idx = None
      else idx \<in> set (p2_clusterized st) \<and>
           cg_events (p2_group st) idx =
             Some (event_group_of
                     (cleanup_clusters eng
                        (join_clusters eng
                           (clusterize eng (load_cloud_from_hdf5_data eng (ds_data cloud_data) idx)
                              cluster_params)
                           cluster_params)
                        cluster_params)))"
proof -
  from phase_2_result [of eng cluster_params cloud_group]
  obtain st where run: "phase_2 eng cluster_params cloud_group = Inr st"
    and calls: "p2_clusterized st =
        filter (clusterable eng cluster_params cloud_group)
          [pg_min_event cloud_group .. pg_max_event cloud_group]"
    and written: "\<forall>i. cg_events (p2_group st) i =
        (if pg_min_event cloud_group \<le> i \<and> i \<le> pg_max_event cloud_group
            \<and> clusterable eng cluster_params cloud_group i
         then Some (event_group_of (cleaned_at eng cluster_params cloud_group i)) else None)"
    by blast
  have c: "clusterable eng cluster_params cloud_group idx \<longleftrightarrow>
      \<not> int (length (pc_cloud (load_cloud_from_hdf5_data eng (ds_data cloud_data) idx)))
           < min_write_size cluster_params"
    using assms(3) by (simp add: clusterable_def)
  have cl: "cleaned_at eng cluster_params cloud_group idx =
      cleanup_clusters eng
        (join_clusters eng
           (clusterize eng (load_cloud_from_hdf5_data eng (ds_data cloud_data) idx) cluster_params)
           cluster_params)
        cluster_params"
    using assms(3) by (simp add: cleaned_at_def cleaned_of_def)
  have mem: "idx \<in> set (p2_clusterized st) \<longleftrightarrow> clusterable eng cluster_params cloud_group idx"
    using calls assms(1,2) by simp
  show ?thesis
    using run mem c cl written assms(1,2) by (intro exI [of _ st]) simp
qed

text \<open>
  In the example run event 2 has one point and event 0 has three, against a
  \<^verbatim>\<open>min_write_size\<close> of 2.
\<close>

theorem phase_2_min_write_size_witness:
  "(\<exists>st. phase_2 example_engine example_params example_points = Inr st
       \<and> 2 \<notin> set (p2_clusterized st) \<and> cg_events (p2_group st) 2 = None)
   \<and> (\<exists>st. phase_2 example_engine example_params example_points = Inr st
       \<and> 0 \<in> set (p2_clusterized st)
       \<and> cg_events (p2_group st) 0 =
           Some (event_group_of
                   [\<lparr>c_event = 0, c_label = 7, c_cloud = [[300]]\<rparr>,
                    \<lparr>c_event = 0, c_label = 9, c_cloud = [[1, 2, 3], [4, 5, 6]]\<rparr>]))"
proof -
  have lo: "pg_min_event example_points \<le> 2" and hi: "2 \<le> pg_max_event example_points"
    and lo0: "pg_min_event example_points \<le> 0" and hi0: "0 \<le> pg_max_event example_points"
    by (simp_all add: example_points_def)
  have small: "pg_clouds example_points 2 = Some \<lparr>ds_data = [[7, 8, 9]], ds_attrs = default_ic_attrs\<rparr>"
    by (simp add: example_points_def)
  have big: "pg_clouds example_points 0 =
      Some \<lparr>ds_data = [[300], [1, 2, 3], [4, 5, 6]],
            ds_attrs = set_ic_attrs \<lparr>amplitude = 300, integral = 600, centroid = 40\<rparr> 1
                         default_ic_attrs\<rparr>"
    by (simp add: example_points_def)
  from phase_2_min_write_size [OF lo hi small, of example_engine example_params]
  have a: "\<exists>st. phase_2 example_engine example_params example_points = Inr st
       \<and> 2 \<notin> set (p2_clusterized st) \<and> cg_events (p2_group st) 2 = None"
    by (simp add: example_engine_def example_params_def example_load_def)
  from phase_2_min_write_size [OF lo0 hi0 big, of example_engine example_params]
  have b: "\<exists>st. phase_2 example_engine example_params example_points = Inr st
       \<and> 0 \<in> set (p2_clusterized st)
       \<and> cg_events (p2_group st) 0 =
           Some (event_group_of
                   [\<lparr>c_event = 0, c_label = 7, c_cloud = [[300]]\<rparr>,
                    \<lparr>c_event = 0, c_label = 9, c_cloud = [[1, 2, 3], [4, 5, 6]]\<rparr>])"
    by (simp add: example_engine_def example_params_def example_load_def example_clusterize_def
          example_join_def example_cleanup_def)
  from a b show ?thesis by simp
qed



section \<open>The claims about the point-cloud phase\<close>

text \<open>The attributes and the array of the dataset of one event.\<close>

lemma make_dataset_attrs:
  "ds_attrs (make_dataset eng fp dp cor fg idx pc) =
     (case qualifying_ic_peak eng fp (fg idx) of
        None \<Rightarrow> default_ic_attrs
      | Some (pk, mult) \<Rightarrow> set_ic_attrs pk mult default_ic_attrs)"
  by (simp add: make_dataset_def qualifying_ic_peak_def Let_def split: option.splits prod.splits)

lemma make_dataset_data:
  "ds_data (make_dataset eng fp dp cor fg idx pc) =
     calibrate_z_position eng pc (micromegas_time_bucket dp) (window_time_bucket dp)
       (detector_length dp) cor
       (case fg idx of
          None \<Rightarrow> None
        | Some frib_data \<Rightarrow>
            if correct_ic_time fp then
              (case get_good_ic_peak eng frib_data fp of
                 None \<Rightarrow> None
               | Some (mult, pk) \<Rightarrow>
                   if fe_correct_ic_time eng frib_data pk fp (get_frequency dp) < 512
                   then Some (fe_correct_ic_time eng frib_data pk fp (get_frequency dp))
                   else None)
            else None)"
  by (simp add: make_dataset_def Let_def split: option.splits prod.splits)

lemma default_ic_attrs_values:
  "default_ic_attrs ''ic_amplitude'' = Some (- 1)"
  "default_ic_attrs ''ic_integral'' = Some (- 1)"
  "default_ic_attrs ''ic_centroid'' = Some (- 1)"
  "default_ic_attrs ''ic_multiplicity'' = Some (- 1)"
  "dom default_ic_attrs = {''ic_amplitude'', ''ic_integral'', ''ic_centroid'', ''ic_multiplicity''}"
  by (auto simp: default_ic_attrs_def)

lemma set_ic_attrs_values:
  "set_ic_attrs pk mult a ''ic_amplitude'' = Some (amplitude pk)"
  "set_ic_attrs pk mult a ''ic_integral'' = Some (integral pk)"
  "set_ic_attrs pk mult a ''ic_centroid'' = Some (centroid pk)"
  "set_ic_attrs pk mult a ''ic_multiplicity'' = Some mult"
  "dom (set_ic_attrs pk mult a) =
     dom a \<union> {''ic_amplitude'', ''ic_integral'', ''ic_centroid'', ''ic_multiplicity''}"
  by (auto simp: set_ic_attrs_def)

text \<open>The example trace file has everything the phase looks up before its loop.\<close>

lemma example_prerequisites:
  "env_trace example_cloud_env = Some example_trace"
  "\<not> length (tf_meta example_trace) < 3"
  "tf_get example_trace = Group [0 \<mapsto> [[1, 2, 3], [4, 5, 6]], 2 \<mapsto> [[7, 8, 9]]]"
  "tf_frib example_trace = Group example_frib"
  "fg_evt example_frib = Group [0 \<mapsto> 300]"
  "fg_scaler example_frib \<noteq> Missing"
  "py_int (tf_meta example_trace ! 0) = 0"
  "py_int (tf_meta example_trace ! 2) = 2"
  by (simp_all add: example_cloud_env_def example_trace_def example_frib_def py_int_def)

text \<open>
  Claim C8. Every dataset the point-cloud phase writes has exactly the four ion-chamber
  attributes. They hold the sentinel \<open>- 1\<close> unless a qualifying peak was found (the good
  peak under IC time correction, or the triggering peak with a multiplicity within the
  bound), and then the values of that peak and its multiplicity. Every event of the range
  with GET data gets its dataset, whatever its FRIB data, and the array of the dataset is
  the calibrated cloud.
\<close>

theorem ic_attributes_sentinel:
  assumes "env_trace env = Some trace_file" and "\<not> length (tf_meta trace_file) < 3"
    and "tf_get trace_file = Group event_group" and "tf_frib trace_file = Group frib_group"
    and "fg_evt frib_group = Group frib_evt_group" and "fg_scaler frib_group \<noteq> Missing"
  shows "\<exists>out pg. phase_pointcloud eng run env frib_params detector_params = Inr out
     \<and> co_cloud_group out = Some pg
     \<and> (\<forall>idx event_data.
            py_int (tf_meta trace_file ! 0) \<le> idx \<and> idx \<le> py_int (tf_meta trace_file ! 2)
            \<and> event_group idx = Some event_data \<longrightarrow> pg_clouds pg idx \<noteq> None)
     \<and> (\<forall>idx d. pg_clouds pg idx = Some d \<longrightarrow>
            dom (ds_attrs d) = {''ic_amplitude'', ''ic_integral'', ''ic_centroid'', ''ic_multiplicity''}
            \<and> (case qualifying_ic_peak eng frib_params (frib_evt_group idx) of
                  None \<Rightarrow>
                    ds_attrs d ''ic_amplitude'' = Some (- 1)
                    \<and> ds_attrs d ''ic_integral'' = Some (- 1)
                    \<and> ds_attrs d ''ic_centroid'' = Some (- 1)
                    \<and> ds_attrs d ''ic_multiplicity'' = Some (- 1)
                | Some (pk, mult) \<Rightarrow>
                    ds_attrs d ''ic_amplitude'' = Some (amplitude pk)
                    \<and> ds_attrs d ''ic_integral'' = Some (integral pk)
                    \<and> ds_attrs d ''ic_centroid'' = Some (centroid pk)
                    \<and> ds_attrs d ''ic_multiplicity'' = Some mult)
            \<and> (\<exists>event_data ic_correction.
                  event_group idx = Some event_data
                  \<and> ds_data d =
                      calibrate_z_position eng (load_cloud_from_get_event eng event_data idx)
                        (micromegas_time_bucket detector_params)
                        (window_time_bucket detector_params) (detector_length detector_params)
                        (if do_garfield_correction detector_params
                         then Some (env_corrector env) else None)
                        ic_correction))"
proof -
  let ?cor = "if do_garfield_correction detector_params then Some (env_corrector env) else None"
  from phase_pointcloud_result [OF assms, of eng run frib_params detector_params]
  obtain out pg where run: "phase_pointcloud eng run env frib_params detector_params = Inr out"
    and grp: "co_cloud_group out = Some pg"
    and mn: "pg_min_event pg = py_int (tf_meta trace_file ! 0)"
    and mx: "pg_max_event pg = py_int (tf_meta trace_file ! 2)"
    and clouds: "\<forall>i. pg_clouds pg i =
             (if py_int (tf_meta trace_file ! 0) \<le> i \<and> i \<le> py_int (tf_meta trace_file ! 2)
              then dataset_at eng frib_params detector_params ?cor event_group frib_evt_group i
              else None)"
    by blast
  have present: "\<forall>idx event_data.
            py_int (tf_meta trace_file ! 0) \<le> idx \<and> idx \<le> py_int (tf_meta trace_file ! 2)
            \<and> event_group idx = Some event_data \<longrightarrow> pg_clouds pg idx \<noteq> None"
    using clouds by (simp add: dataset_at_def)
  have each: "dom (ds_attrs d) = {''ic_amplitude'', ''ic_integral'', ''ic_centroid'', ''ic_multiplicity''}
            \<and> (case qualifying_ic_peak eng frib_params (frib_evt_group idx) of
                  None \<Rightarrow>
                    ds_attrs d ''ic_amplitude'' = Some (- 1)
                    \<and> ds_attrs d ''ic_integral'' = Some (- 1)
                    \<and> ds_attrs d ''ic_centroid'' = Some (- 1)
                    \<and> ds_attrs d ''ic_multiplicity'' = Some (- 1)
                | Some (pk, mult) \<Rightarrow>
                    ds_attrs d ''ic_amplitude'' = Some (amplitude pk)
                    \<and> ds_attrs d ''ic_integral'' = Some (integral pk)
                    \<and> ds_attrs d ''ic_centroid'' = Some (centroid pk)
                    \<and> ds_attrs d ''ic_multiplicity'' = Some mult)
            \<and> (\<exists>event_data ic_correction.
                  event_group idx = Some event_data
                  \<and> ds_data d =
                      calibrate_z_position eng (load_cloud_from_get_event eng event_data idx)
                        (micromegas_time_bucket detector_params)
                        (window_time_bucket detector_params) (detector_length detector_params)
                        ?cor ic_correction)"
    if d: "pg_clouds pg idx = Some d" for idx d
  proof -
    from d clouds
    have "dataset_at eng frib_params detector_params ?cor event_group frib_evt_group idx = Some d"
      by (auto split: if_splits)
    then obtain event_data where e: "event_group idx = Some event_data"
      and md: "d = make_dataset eng frib_params detector_params ?cor frib_evt_group idx
                     (load_cloud_from_get_event eng event_data idx)"
      by (auto simp: dataset_at_def split: option.splits)
    have attrs: "ds_attrs d =
       (case qualifying_ic_peak eng frib_params (frib_evt_group idx) of
          None \<Rightarrow> default_ic_attrs
        | Some (pk, mult) \<Rightarrow> set_ic_attrs pk mult default_ic_attrs)"
      unfolding md by (rule make_dataset_attrs)
    have data: "\<exists>ic_correction. ds_data d =
        calibrate_z_position eng (load_cloud_from_get_event eng event_data idx)
          (micromegas_time_bucket detector_params)
          (window_time_bucket detector_params) (detector_length detector_params)
          ?cor ic_correction"
      unfolding md make_dataset_data by blast
    show ?thesis
    proof (cases "qualifying_ic_peak eng frib_params (frib_evt_group idx)")
      case None
      with attrs e data show ?thesis by (simp add: default_ic_attrs_values)
    next
      case (Some q)
      obtain pk mult where q: "q = (pk, mult)" by (cases q)
      with Some attrs e data show ?thesis
        by (simp add: set_ic_attrs_values default_ic_attrs_values)
    qed
  qed
  show ?thesis
    using run grp present each by (intro exI [of _ out] exI [of _ pg]) blast
qed

text \<open>
  In the example run event 2 has no FRIB data and keeps the sentinels; event 0 has a good
  peak of amplitude 300.
\<close>

theorem ic_attributes_sentinel_witness:
  "\<exists>out pg. phase_pointcloud example_cloud_engine 1 example_cloud_env example_frib_params
               example_detector = Inr out
     \<and> co_cloud_group out = Some pg
     \<and> (\<exists>d. pg_clouds pg 2 = Some d
            \<and> ds_attrs d ''ic_amplitude'' = Some (- 1) \<and> ds_attrs d ''ic_integral'' = Some (- 1)
            \<and> ds_attrs d ''ic_centroid'' = Some (- 1) \<and> ds_attrs d ''ic_multiplicity'' = Some (- 1))
     \<and> (\<exists>d. pg_clouds pg 0 = Some d
            \<and> ds_attrs d ''ic_amplitude'' = Some 300 \<and> ds_attrs d ''ic_integral'' = Some 600
            \<and> ds_attrs d ''ic_centroid'' = Some 40 \<and> ds_attrs d ''ic_multiplicity'' = Some 1)"
proof -
  let ?eg = "[0 \<mapsto> [[1, 2, 3], [4, 5, 6]], 2 \<mapsto> [[7, 8, 9 :: real]]] :: int \<rightharpoonup> cloud"
  let ?fg = "[0 \<mapsto> 300] :: int \<rightharpoonup> real"
  have none: "qualifying_ic_peak example_cloud_engine example_frib_params (?fg 2) = None"
    by (simp add: qualifying_ic_peak_def)
  have some: "qualifying_ic_peak example_cloud_engine example_frib_params (?fg 0)
      = Some (\<lparr>amplitude = 300, integral = 600, centroid = 40\<rparr>, 1)"
    by (simp add: qualifying_ic_peak_def example_cloud_engine_def example_frib_params_def
          example_good_ic_def)
  from ic_attributes_sentinel [OF example_prerequisites(1-6), of example_cloud_engine 1
      example_frib_params example_detector]
  obtain out pg where run: "phase_pointcloud example_cloud_engine 1 example_cloud_env
        example_frib_params example_detector = Inr out"
    and grp: "co_cloud_group out = Some pg"
    and present0: "\<forall>idx event_data.
            py_int (tf_meta example_trace ! 0) \<le> idx \<and> idx \<le> py_int (tf_meta example_trace ! 2)
            \<and> ?eg idx = Some event_data \<longrightarrow> pg_clouds pg idx \<noteq> None"
    and each0: "\<forall>idx d. pg_clouds pg idx = Some d \<longrightarrow>
            dom (ds_attrs d) = {''ic_amplitude'', ''ic_integral'', ''ic_centroid'', ''ic_multiplicity''}
            \<and> (case qualifying_ic_peak example_cloud_engine example_frib_params (?fg idx) of
                  None \<Rightarrow>
                    ds_attrs d ''ic_amplitude'' = Some (- 1)
                    \<and> ds_attrs d ''ic_integral'' = Some (- 1)
                    \<and> ds_attrs d ''ic_centroid'' = Some (- 1)
                    \<and> ds_attrs d ''ic_multiplicity'' = Some (- 1)
                | Some (pk, mult) \<Rightarrow>
                    ds_attrs d ''ic_amplitude'' = Some (amplitude pk)
                    \<and> ds_attrs d ''ic_integral'' = Some (integral pk)
                    \<and> ds_attrs d ''ic_centroid'' = Some (centroid pk)
                    \<and> ds_attrs d ''ic_multiplicity'' = Some mult)
            \<and> (\<exists>event_data ic_correction.
                  ?eg idx = Some event_data
                  \<and> ds_data d =
                      calibrate_z_position example_cloud_engine
                        (load_cloud_from_get_event example_cloud_engine event_data idx)
                        (micromegas_time_bucket example_detector)
                        (window_time_bucket example_detector) (detector_length example_detector)
                        (if do_garfield_correction example_detector
                         then Some (env_corrector example_cloud_env) else None)
                        ic_correction)"
    by (elim exE conjE) (rule that; assumption)
  have present: "pg_clouds pg idx \<noteq> None" if "0 \<le> idx" "idx \<le> 2" "?eg idx = Some event_data"
    for idx event_data
    using present0 that unfolding example_prerequisites(7,8) by blast
  have each: "case qualifying_ic_peak example_cloud_engine example_frib_params (?fg idx) of
                  None \<Rightarrow>
                    ds_attrs d ''ic_amplitude'' = Some (- 1)
                    \<and> ds_attrs d ''ic_integral'' = Some (- 1)
                    \<and> ds_attrs d ''ic_centroid'' = Some (- 1)
                    \<and> ds_attrs d ''ic_multiplicity'' = Some (- 1)
                | Some (pk, mult) \<Rightarrow>
                    ds_attrs d ''ic_amplitude'' = Some (amplitude pk)
                    \<and> ds_attrs d ''ic_integral'' = Some (integral pk)
                    \<and> ds_attrs d ''ic_centroid'' = Some (centroid pk)
                    \<and> ds_attrs d ''ic_multiplicity'' = Some mult"
    if "pg_clouds pg idx = Some d" for idx d
    using each0 that by blast
  from present [of 2] obtain d2 where d2: "pg_clouds pg 2 = Some d2" by auto
  from present [of 0] obtain d0 where d0: "pg_clouds pg 0 = Some d0" by auto
  from each [OF d2] none
  have s2: "ds_attrs d2 ''ic_amplitude'' = Some (- 1) \<and> ds_attrs d2 ''ic_integral'' = Some (- 1)
            \<and> ds_attrs d2 ''ic_centroid'' = Some (- 1) \<and> ds_attrs d2 ''ic_multiplicity'' = Some (- 1)"
    by simp
  from each [OF d0] some
  have s0: "ds_attrs d0 ''ic_amplitude'' = Some 300 \<and> ds_attrs d0 ''ic_integral'' = Some 600
            \<and> ds_attrs d0 ''ic_centroid'' = Some 40 \<and> ds_attrs d0 ''ic_multiplicity'' = Some 1"
    by simp
  from run grp d2 s2 d0 s0 show ?thesis by blast
qed

text \<open>
  Claim C10. With the IC time correction on and a good peak found for an event, the
  point-cloud phase calibrates the z positions with the computed correction exactly when
  the correction is below 512, and without it otherwise; the dataset of the event is
  written with the calibrated cloud in both cases.
\<close>

theorem ic_correction_below_512:
  assumes "env_trace env = Some trace_file" and "\<not> length (tf_meta trace_file) < 3"
    and "tf_get trace_file = Group event_group" and "tf_frib trace_file = Group frib_group"
    and "fg_evt frib_group = Group frib_evt_group" and "fg_scaler frib_group \<noteq> Missing"
    and "py_int (tf_meta trace_file ! 0) \<le> idx" and "idx \<le> py_int (tf_meta trace_file ! 2)"
    and "event_group idx = Some event_data" and "frib_evt_group idx = Some frib_data"
    and "correct_ic_time frib_params"
    and "get_good_ic_peak eng frib_data frib_params = Some (mult, pk)"
  shows "\<exists>out pg d. phase_pointcloud eng run env frib_params detector_params = Inr out
     \<and> co_cloud_group out = Some pg \<and> pg_clouds pg idx = Some d
     \<and> ds_data d =
         calibrate_z_position eng (load_cloud_from_get_event eng event_data idx)
           (micromegas_time_bucket detector_params) (window_time_bucket detector_params)
           (detector_length detector_params)
           (if do_garfield_correction detector_params then Some (env_corrector env) else None)
           (if fe_correct_ic_time eng frib_data pk frib_params (get_frequency detector_params) < 512
            then Some (fe_correct_ic_time eng frib_data pk frib_params
                         (get_frequency detector_params))
            else None)"
proof -
  let ?cor = "if do_garfield_correction detector_params then Some (env_corrector env) else None"
  let ?d = "make_dataset eng frib_params detector_params ?cor frib_evt_group idx
              (load_cloud_from_get_event eng event_data idx)"
  from phase_pointcloud_result [OF assms(1-6), of eng run frib_params detector_params]
  obtain out pg where run: "phase_pointcloud eng run env frib_params detector_params = Inr out"
    and grp: "co_cloud_group out = Some pg"
    and clouds: "\<forall>i. pg_clouds pg i =
             (if py_int (tf_meta trace_file ! 0) \<le> i \<and> i \<le> py_int (tf_meta trace_file ! 2)
              then dataset_at eng frib_params detector_params ?cor event_group frib_evt_group i
              else None)"
    by blast
  have d: "pg_clouds pg idx = Some ?d"
    using clouds assms(7,8,9) by (simp add: dataset_at_def)
  have "ds_data ?d =
         calibrate_z_position eng (load_cloud_from_get_event eng event_data idx)
           (micromegas_time_bucket detector_params) (window_time_bucket detector_params)
           (detector_length detector_params) ?cor
           (if fe_correct_ic_time eng frib_data pk frib_params (get_frequency detector_params) < 512
            then Some (fe_correct_ic_time eng frib_data pk frib_params
                         (get_frequency detector_params))
            else None)"
    using assms(10,11,12) by (simp add: make_dataset_data)
  with run grp d show ?thesis by blast
qed

text \<open>In the example run the correction of event 0 is 300, and it is applied.\<close>

theorem ic_correction_below_512_witness:
  "\<exists>out pg d. phase_pointcloud example_cloud_engine 1 example_cloud_env example_frib_params
                 example_detector = Inr out
     \<and> co_cloud_group out = Some pg \<and> pg_clouds pg 0 = Some d
     \<and> ds_data d = [[300], [1, 2, 3], [4, 5, 6]]"
proof -
  have lo: "py_int (tf_meta example_trace ! 0) \<le> 0" and hi: "0 \<le> py_int (tf_meta example_trace ! 2)"
    by (simp_all add: example_prerequisites(7,8))
  have e: "([0 \<mapsto> [[1, 2, 3], [4, 5, 6]], 2 \<mapsto> [[7, 8, 9]]] :: int \<rightharpoonup> cloud) 0
      = Some [[1, 2, 3], [4, 5, 6]]" by simp
  have f: "([0 \<mapsto> 300] :: int \<rightharpoonup> real) 0 = Some 300" by simp
  have on: "correct_ic_time example_frib_params" by (simp add: example_frib_params_def)
  have good: "get_good_ic_peak example_cloud_engine 300 example_frib_params
      = Some (1, \<lparr>amplitude = 300, integral = 600, centroid = 40\<rparr>)"
    by (simp add: example_cloud_engine_def example_good_ic_def)
  from ic_correction_below_512 [OF example_prerequisites(1-6) lo hi e f on good, of 1 example_detector]
  show ?thesis
    by (simp add: example_cloud_engine_def example_ic_cor_def example_calibrate_def
          example_get_cloud_def)
qed

section \<open>The claim about events without data\<close>



end
